theory Spec2Isabelle
  imports Main
begin

section \<open>JavaScript values\<close>

text \<open>
  The service keeps its settings in a field of type \<open>ThemeSettings | undefined\<close> that is
  filled from \<open>JSON.parse\<close>, so at run time it can hold any JSON value. Strings are lists of
  UTF-16 code units; the characters of a stored text (a \<open>string\<close>) stand for code units
  below 256. A number is kept as the decimal \<open>m * 10 ^ e\<close> that its text denotes, and as
  \<open>0\<close> when that decimal rounds to the double zero, so that \<open>m = 0\<close> says the number is
  zero.
\<close>

type_synonym jsstring = "nat list"

datatype jsval =
    JUndefined
  | JNull
  | JBool bool
  | JNumber int int
  | JString jsstring
  | JArray "jsval list"
  | JObject "(jsstring \<times> jsval) list"

definition code_units :: "string \<Rightarrow> jsstring" where
  "code_units s = map of_char s"

text \<open>ToBoolean: what \<open>if (v)\<close>, \<open>!v\<close> and \<open>v ? a : b\<close> test.\<close>

fun truthy :: "jsval \<Rightarrow> bool" where
  "truthy JUndefined = False"
| "truthy JNull = False"
| "truthy (JBool b) = b"
| "truthy (JNumber m e) = (m \<noteq> 0)"
| "truthy (JString cs) = (cs \<noteq> [])"
| "truthy (JArray xs) = True"
| "truthy (JObject ms) = True"

text \<open>
  Optional property read \<open>v?.k\<close>: \<open>undefined\<close> on \<open>null\<close> and \<open>undefined\<close>, the member of
  an object, and \<open>undefined\<close> where the value has no such property.
\<close>

fun get_prop :: "jsval \<Rightarrow> jsstring \<Rightarrow> jsval" where
  "get_prop (JObject ms) k = (case map_of ms k of None \<Rightarrow> JUndefined | Some v \<Rightarrow> v)"
| "get_prop v k = JUndefined"

text \<open>Property write \<open>o.k = v\<close> on the member list of an object.\<close>

fun put_member :: "jsstring \<Rightarrow> jsval \<Rightarrow> (jsstring \<times> jsval) list \<Rightarrow> (jsstring \<times> jsval) list" where
  "put_member k v [] = [(k, v)]"
| "put_member k v (p # ps) = (if fst p = k then (k, v) # ps else p # put_member k v ps)"

datatype error = SyntaxError

section \<open>JSON.parse\<close>

text \<open>
  The platform's \<open>JSON.parse\<close>, as a scanner that reads the text one character at a time
  and a pushdown recogniser of the JSON grammar over the tokens. Both are structurally
  recursive, so the parser is total: every text is either parsed or rejected with
  \<open>SyntaxError\<close>.
\<close>

datatype token = TLBrace | TRBrace | TLBracket | TRBracket | TColon | TComma | TValue jsval

datatype numphase = PMinus | PZero | PInt | PDot | PFrac | PExp | PExpSign | PExpDigits

datatype lexmode =
    LStart
  | LLiteral string jsval
  | LString jsstring
  | LEscape jsstring
  | LUnicode jsstring nat nat
  | LNumber numphase bool nat nat bool nat

definition digit_of :: "char \<Rightarrow> nat option" where
  "digit_of c = (let n = (of_char c :: nat) in if 48 \<le> n \<and> n \<le> 57 then Some (n - 48) else None)"

definition hex_of :: "char \<Rightarrow> nat option" where
  "hex_of c =
     (let n = (of_char c :: nat) in
      if 48 \<le> n \<and> n \<le> 57 then Some (n - 48)
      else if 97 \<le> n \<and> n \<le> 102 then Some (n - 87)
      else if 65 \<le> n \<and> n \<le> 70 then Some (n - 55)
      else None)"

definition is_ws :: "char \<Rightarrow> bool" where
  "is_ws c = (c = CHR 0x20 \<or> c = CHR 0x09 \<or> c = CHR 0x0A \<or> c = CHR 0x0D)"

definition escape_of :: "char \<Rightarrow> nat option" where
  "escape_of c =
     (if c = CHR 0x22 then Some 34
      else if c = CHR 0x5C then Some 92
      else if c = CHR ''/'' then Some 47
      else if c = CHR ''b'' then Some 8
      else if c = CHR ''f'' then Some 12
      else if c = CHR ''n'' then Some 10
      else if c = CHR ''r'' then Some 13
      else if c = CHR ''t'' then Some 9
      else None)"

text \<open>
  The double nearest to the decimal \<open>m * 10 ^ e\<close> is zero exactly when
  \<open>m * 10 ^ e \<le> 2 ^ - 1075\<close>, half of the least positive double (the tie goes to zero, the
  even neighbour).
\<close>

definition rounds_to_zero :: "nat \<Rightarrow> int \<Rightarrow> bool" where
  "rounds_to_zero m e =
     (if 0 \<le> e then m = 0 else int m * 2 ^ 1075 \<le> 10 ^ nat (- e))"

definition number_value :: "bool \<Rightarrow> nat \<Rightarrow> nat \<Rightarrow> bool \<Rightarrow> nat \<Rightarrow> jsval" where
  "number_value neg m k eneg ev =
     (let e = (if eneg then - int ev else int ev) - int k in
      if rounds_to_zero m e then JNumber 0 0
      else JNumber (if neg then - int m else int m) e)"

fun num_accepting :: "numphase \<Rightarrow> bool" where
  "num_accepting PZero = True"
| "num_accepting PInt = True"
| "num_accepting PFrac = True"
| "num_accepting PExpDigits = True"
| "num_accepting ph = False"

definition is_exp :: "char \<Rightarrow> bool" where
  "is_exp c = (c = CHR ''e'' \<or> c = CHR ''E'')"

text \<open>
  One more character of a number \<open>-? (0 | [1-9][0-9]*) (. [0-9]+)? ([eE] [+-]? [0-9]+)?\<close>;
  \<open>None\<close> when the character does not continue it. \<open>m\<close> collects the digits of the integer
  and fraction parts, \<open>k\<close> counts the fraction digits, \<open>ev\<close> is the exponent.
\<close>

fun num_step :: "numphase \<Rightarrow> bool \<Rightarrow> nat \<Rightarrow> nat \<Rightarrow> bool \<Rightarrow> nat \<Rightarrow> char \<Rightarrow> lexmode option" where
  "num_step PMinus neg m k eneg ev c =
     (case digit_of c of
        None \<Rightarrow> None
      | Some d \<Rightarrow> Some (LNumber (if d = 0 then PZero else PInt) neg d k eneg ev))"
| "num_step PZero neg m k eneg ev c =
     (if c = CHR ''.'' then Some (LNumber PDot neg m k eneg ev)
      else if is_exp c then Some (LNumber PExp neg m k eneg ev)
      else None)"
| "num_step PInt neg m k eneg ev c =
     (case digit_of c of
        Some d \<Rightarrow> Some (LNumber PInt neg (10 * m + d) k eneg ev)
      | None \<Rightarrow>
          if c = CHR ''.'' then Some (LNumber PDot neg m k eneg ev)
          else if is_exp c then Some (LNumber PExp neg m k eneg ev)
          else None)"
| "num_step PDot neg m k eneg ev c =
     (case digit_of c of
        None \<Rightarrow> None
      | Some d \<Rightarrow> Some (LNumber PFrac neg (10 * m + d) (Suc k) eneg ev))"
| "num_step PFrac neg m k eneg ev c =
     (case digit_of c of
        Some d \<Rightarrow> Some (LNumber PFrac neg (10 * m + d) (Suc k) eneg ev)
      | None \<Rightarrow> if is_exp c then Some (LNumber PExp neg m k eneg ev) else None)"
| "num_step PExp neg m k eneg ev c =
     (if c = CHR ''+'' then Some (LNumber PExpSign neg m k False ev)
      else if c = CHR ''-'' then Some (LNumber PExpSign neg m k True ev)
      else (case digit_of c of
              None \<Rightarrow> None
            | Some d \<Rightarrow> Some (LNumber PExpDigits neg m k eneg d)))"
| "num_step PExpSign neg m k eneg ev c =
     (case digit_of c of
        None \<Rightarrow> None
      | Some d \<Rightarrow> Some (LNumber PExpDigits neg m k eneg d))"
| "num_step PExpDigits neg m k eneg ev c =
     (case digit_of c of
        None \<Rightarrow> None
      | Some d \<Rightarrow> Some (LNumber PExpDigits neg m k eneg (10 * ev + d)))"

text \<open>The first character of a token, or white space between tokens.\<close>

definition start_char :: "char \<Rightarrow> (token list \<times> lexmode) option" where
  "start_char c =
     (if is_ws c then Some ([], LStart)
      else if c = CHR ''{'' then Some ([TLBrace], LStart)
      else if c = CHR ''}'' then Some ([TRBrace], LStart)
      else if c = CHR ''['' then Some ([TLBracket], LStart)
      else if c = CHR '']'' then Some ([TRBracket], LStart)
      else if c = CHR '':'' then Some ([TColon], LStart)
      else if c = CHR '','' then Some ([TComma], LStart)
      else if c = CHR 0x22 then Some ([], LString [])
      else if c = CHR ''-'' then Some ([], LNumber PMinus True 0 0 False 0)
      else if c = CHR ''t'' then Some ([], LLiteral ''rue'' (JBool True))
      else if c = CHR ''f'' then Some ([], LLiteral ''alse'' (JBool False))
      else if c = CHR ''n'' then Some ([], LLiteral ''ull'' JNull)
      else (case digit_of c of
              None \<Rightarrow> None
            | Some d \<Rightarrow> Some ([], LNumber (if d = 0 then PZero else PInt) False d 0 False 0)))"

fun lex_step :: "lexmode \<Rightarrow> char \<Rightarrow> (token list \<times> lexmode) option" where
  "lex_step LStart c = start_char c"
| "lex_step (LLiteral [] v) c = None"
| "lex_step (LLiteral (x # xs) v) c =
     (if c = x then (if xs = [] then Some ([TValue v], LStart) else Some ([], LLiteral xs v))
      else None)"
| "lex_step (LString acc) c =
     (if c = CHR 0x22 then Some ([TValue (JString (rev acc))], LStart)
      else if c = CHR 0x5C then Some ([], LEscape acc)
      else if (of_char c :: nat) < 32 then None
      else Some ([], LString (of_char c # acc)))"
| "lex_step (LEscape acc) c =
     (if c = CHR ''u'' then Some ([], LUnicode acc 4 0)
      else (case escape_of c of None \<Rightarrow> None | Some u \<Rightarrow> Some ([], LString (u # acc))))"
| "lex_step (LUnicode acc n v) c =
     (case hex_of c of
        None \<Rightarrow> None
      | Some h \<Rightarrow>
          if n \<le> 1 then Some ([], LString ((16 * v + h) # acc))
          else Some ([], LUnicode acc (n - 1) (16 * v + h)))"
| "lex_step (LNumber ph neg m k eneg ev) c =
     (case num_step ph neg m k eneg ev c of
        Some md \<Rightarrow> Some ([], md)
      | None \<Rightarrow>
          if num_accepting ph then
            (case start_char c of
               None \<Rightarrow> None
             | Some (ts, md) \<Rightarrow> Some (TValue (number_value neg m k eneg ev) # ts, md))
          else None)"

fun lex_end :: "lexmode \<Rightarrow> token list option" where
  "lex_end LStart = Some []"
| "lex_end (LNumber ph neg m k eneg ev) =
     (if num_accepting ph then Some [TValue (number_value neg m k eneg ev)] else None)"
| "lex_end md = None"

fun tokenize :: "lexmode \<Rightarrow> string \<Rightarrow> token list option" where
  "tokenize md [] = lex_end md"
| "tokenize md (c # cs) =
     (case lex_step md c of
        None \<Rightarrow> None
      | Some (ts, md') \<Rightarrow>
          (case tokenize md' cs of None \<Rightarrow> None | Some rest \<Rightarrow> Some (ts @ rest)))"

text \<open>
  The grammar over tokens. The stack holds the arrays and objects that are still open;
  \<open>expect\<close> says what may come next.
\<close>

datatype frame =
    FArray "jsval list"
  | FObject "(jsstring \<times> jsval) list"
  | FMember "(jsstring \<times> jsval) list" jsstring

datatype expect = EValue | EFirstElement | EFirstKey | EKey | EColon | ESeparator | EEnd jsval

type_synonym parser = "expect \<times> frame list"

fun push_value :: "jsval \<Rightarrow> frame list \<Rightarrow> parser option" where
  "push_value v [] = Some (EEnd v, [])"
| "push_value v (FArray xs # st) = Some (ESeparator, FArray (v # xs) # st)"
| "push_value v (FMember ms k # st) = Some (ESeparator, FObject (put_member k v ms) # st)"
| "push_value v (FObject ms # st) = None"

definition open_value :: "frame list \<Rightarrow> token \<Rightarrow> parser option" where
  "open_value st t =
     (case t of
        TValue v \<Rightarrow> push_value v st
      | TLBracket \<Rightarrow> Some (EFirstElement, FArray [] # st)
      | TLBrace \<Rightarrow> Some (EFirstKey, FObject [] # st)
      | _ \<Rightarrow> None)"

definition close_array :: "frame list \<Rightarrow> parser option" where
  "close_array st =
     (case st of FArray xs # st' \<Rightarrow> push_value (JArray (rev xs)) st' | _ \<Rightarrow> None)"

definition close_object :: "frame list \<Rightarrow> parser option" where
  "close_object st =
     (case st of FObject ms # st' \<Rightarrow> push_value (JObject ms) st' | _ \<Rightarrow> None)"

definition member_key :: "frame list \<Rightarrow> token \<Rightarrow> parser option" where
  "member_key st t =
     (case (st, t) of
        (FObject ms # st', TValue (JString k)) \<Rightarrow> Some (EColon, FMember ms k # st')
      | _ \<Rightarrow> None)"

definition separator :: "frame list \<Rightarrow> token \<Rightarrow> parser option" where
  "separator st t =
     (case t of
        TComma \<Rightarrow>
          (case st of
             FArray xs # st' \<Rightarrow> Some (EValue, st)
           | FObject ms # st' \<Rightarrow> Some (EKey, st)
           | _ \<Rightarrow> None)
      | TRBracket \<Rightarrow> close_array st
      | TRBrace \<Rightarrow> close_object st
      | _ \<Rightarrow> None)"

fun parse_step :: "expect \<Rightarrow> frame list \<Rightarrow> token \<Rightarrow> parser option" where
  "parse_step EValue st t = open_value st t"
| "parse_step EFirstElement st t = (if t = TRBracket then close_array st else open_value st t)"
| "parse_step EFirstKey st t = (if t = TRBrace then close_object st else member_key st t)"
| "parse_step EKey st t = member_key st t"
| "parse_step EColon st t = (if t = TColon then Some (EValue, st) else None)"
| "parse_step ESeparator st t = separator st t"
| "parse_step (EEnd v) st t = None"

fun parse_tokens :: "parser \<Rightarrow> token list \<Rightarrow> error + jsval" where
  "parse_tokens (e, st) [] =
     (case (e, st) of (EEnd v, []) \<Rightarrow> Inr v | _ \<Rightarrow> Inl SyntaxError)"
| "parse_tokens (e, st) (t # ts) =
     (case parse_step e st t of
        None \<Rightarrow> Inl SyntaxError
      | Some p \<Rightarrow> parse_tokens p ts)"

definition JSON_parse :: "string \<Rightarrow> error + jsval" where
  "JSON_parse text =
     (case tokenize LStart text of
        None \<Rightarrow> Inl SyntaxError
      | Some ts \<Rightarrow> parse_tokens (EValue, []) ts)"

section \<open>Collaborators of the theme service\<close>

text \<open>
  \<open>Renderer2.addClass(document.body, name)\<close> and \<open>removeClass\<close>: the calls the service
  makes are kept in a log, next to the class list of the body element they act on.
\<close>

datatype render_call = AddClass string | RemoveClass string

text \<open>
  The state the service runs in.
  \<^item> \<open>localStorage\<close>: the key-value store behind \<open>LocalStorage\<close>, key to serialized value.
  \<^item> \<open>defaultView\<close>: \<open>document.defaultView\<close>; \<open>None\<close> when the document has no window,
    \<open>Some m\<close> when it has one whose media query \<open>(prefers-color-scheme: dark)\<close> matches \<open>m\<close>.
  \<^item> \<open>body_classList\<close>: the classes of \<open>document.body\<close>.
  \<^item> \<open>renderer_calls\<close>: the calls made to the renderer, oldest first.
  \<^item> \<open>settings\<close>: the service's field \<open>settings\<close>.
  \<^item> \<open>subscriptions\<close>: the number of live subscriptions to the media query's
    \<open>change\<close> event.
  \<^item> \<open>unhandled\<close>: the errors delivered to a subscriber that has no error callback, which
    the reactive library reports to the host instead of the caller.
\<close>

record state =
  localStorage :: "string \<rightharpoonup> string"
  defaultView :: "bool option"
  body_classList :: "string list"
  renderer_calls :: "render_call list"
  settings :: jsval
  subscriptions :: nat
  unhandled :: "error list"

definition addClass :: "string \<Rightarrow> state \<Rightarrow> state" where
  "addClass name s =
     s\<lparr>body_classList :=
         (if name \<in> set (body_classList s) then body_classList s else body_classList s @ [name]),
       renderer_calls := renderer_calls s @ [AddClass name]\<rparr>"

definition removeClass :: "string \<Rightarrow> state \<Rightarrow> state" where
  "removeClass name s =
     s\<lparr>body_classList := removeAll name (body_classList s),
       renderer_calls := renderer_calls s @ [RemoveClass name]\<rparr>"

text \<open>
  Modelled from the spec: the class \<open>ThemeSettings\<close> of \<open>./theme-settings\<close>, which is not
  among the sources. The spec gives it a single field, \<open>darkMode: boolean\<close>; a new object has
  no member until \<open>darkMode\<close> is assigned.
\<close>

definition new_ThemeSettings :: jsval where
  "new_ThemeSettings = JObject []"

definition darkMode_key :: jsstring where
  "darkMode_key = code_units ''darkMode''"

definition set_darkMode :: "jsval \<Rightarrow> jsval \<Rightarrow> jsval" where
  "set_darkMode obj v = (case obj of JObject ms \<Rightarrow> JObject (put_member darkMode_key v ms) | _ \<Rightarrow> obj)"

text \<open>
  Modelled from the spec: \<open>LocalStorage\<close> of \<open>@core/storage/storages/local.storage\<close>, which
  is not among the sources. The spec describes a key-value store with
  \<open>getItem(key) -> serialized value or absent\<close>, \<open>setItem(key, value)\<close> and \<open>removeItem(key)\<close>,
  whose value under the settings key is the JSON-serialized \<open>{darkMode: boolean}\<close>.
  \<open>getItem\<close> emits its result once; \<open>setItem\<close> is given the record's \<open>darkMode\<close>.
\<close>

definition JSON_stringify_ThemeSettings :: "bool \<Rightarrow> string" where
  \<open>JSON_stringify_ThemeSettings darkMode = ''{"darkMode":'' @ (if darkMode then ''true'' else ''false'') @ ''}''\<close>

definition getItem :: "string \<Rightarrow> state \<Rightarrow> string option" where
  "getItem key s = localStorage s key"

definition setItem :: "string \<Rightarrow> bool \<Rightarrow> state \<Rightarrow> state" where
  "setItem key darkMode s =
     s\<lparr>localStorage := (localStorage s)(key \<mapsto> JSON_stringify_ThemeSettings darkMode)\<rparr>"

definition removeItem :: "string \<Rightarrow> state \<Rightarrow> state" where
  "removeItem key s = s\<lparr>localStorage := (localStorage s)(key := None)\<rparr>"

section \<open>ThemeService\<close>

definition LIGHT_MODE_CSS_CLASS_NAME :: string where
  "LIGHT_MODE_CSS_CLASS_NAME = ''theme-alternate''"

definition SETTINGS_KEY :: string where
  "SETTINGS_KEY = ''theme''"

text \<open>
  \<open>isSystemDark\<close>: \<open>this.document.defaultView?.matchMedia(...).matches!\<close>. The optional
  chain yields \<open>undefined\<close> when there is no window; the non-null assertion changes the
  static type only.
\<close>

definition isSystemDark :: "state \<Rightarrow> jsval" where
  "isSystemDark s = (case defaultView s of None \<Rightarrow> JUndefined | Some m \<Rightarrow> JBool m)"

definition setMode :: "jsval \<Rightarrow> state \<Rightarrow> state" where
  "setMode darkMode s =
     (if truthy darkMode then removeClass LIGHT_MODE_CSS_CLASS_NAME s
      else addClass LIGHT_MODE_CSS_CLASS_NAME s)"

text \<open>\<open>apply()\<close>: \<open>this.setMode(!!this.settings?.darkMode)\<close>.\<close>

definition apply_theme :: "state \<Rightarrow> state" where
  "apply_theme s = setMode (JBool (truthy (get_prop (settings s) darkMode_key))) s"

text \<open>
  \<open>startSystemModeSynchronization\<close>: with a window, one more subscription to the media
  query's \<open>change\<close> event, piped through \<open>takeUntil(this._destroy$)\<close>; nothing without one.
\<close>

definition startSystemModeSynchronization :: "state \<Rightarrow> state" where
  "startSystemModeSynchronization s =
     (case defaultView s of
        None \<Rightarrow> s
      | Some m \<Rightarrow> s\<lparr>subscriptions := Suc (subscriptions s)\<rparr>)"

text \<open>
  The callback of the subscription: \<open>e ? e.matches : this.isSystemDark()\<close>, then
  \<open>setMode\<close>. The event is \<open>Some matches\<close>; \<open>None\<close> stands for a falsy event.
\<close>

definition on_change :: "bool option \<Rightarrow> state \<Rightarrow> state" where
  "on_change e s = setMode (case e of Some m \<Rightarrow> JBool m | None \<Rightarrow> isSystemDark s) s"

text \<open>
  The operating system changes its preference to \<open>m\<close>: the media query of the window
  matches \<open>m\<close> from now on, and each live subscription runs its callback on the event.
\<close>

definition preference_change :: "bool \<Rightarrow> state \<Rightarrow> state" where
  "preference_change m s =
     (case defaultView s of
        None \<Rightarrow> s
      | Some old \<Rightarrow> ((on_change (Some m)) ^^ subscriptions s) (s\<lparr>defaultView := Some m\<rparr>))"

text \<open>
  The signal \<open>_destroy$\<close> fires when the owning scope ends: \<open>takeUntil\<close> completes every
  subscription that is live at that moment.
\<close>

definition destroy :: "state \<Rightarrow> state" where
  "destroy s = s\<lparr>subscriptions := 0\<rparr>"

text \<open>
  \<open>_getDefaultSettings\<close>: the pipeline \<open>getItem(key).pipe(tap(...), tap(...), first())\<close>.
  An exception thrown in a \<open>tap\<close> callback becomes the error of the pipeline (\<open>Inl\<close>), and
  the later callbacks do not run.
\<close>

definition tap_deserialize :: "string option \<Rightarrow> state \<Rightarrow> error + state" where
  "tap_deserialize serializedValue s =
     (case serializedValue of
        None \<Rightarrow> Inr (s\<lparr>settings := JUndefined\<rparr>)
      | Some text \<Rightarrow>
          if text = [] then Inr (s\<lparr>settings := JUndefined\<rparr>)
          else (case JSON_parse text of
                  Inl e \<Rightarrow> Inl e
                | Inr v \<Rightarrow> Inr (s\<lparr>settings := v\<rparr>)))"

definition tap_default :: "state \<Rightarrow> state" where
  "tap_default s =
     (if \<not> truthy (settings s) then
        (let s1 = s\<lparr>settings := new_ThemeSettings\<rparr>;
             s2 = s1\<lparr>settings := set_darkMode (settings s1) (isSystemDark s1)\<rparr>
         in startSystemModeSynchronization s2)
      else s)"

definition getDefaultSettings :: "string \<Rightarrow> state \<Rightarrow> error + state" where
  "getDefaultSettings key s =
     (case tap_deserialize (getItem key s) s of
        Inl e \<Rightarrow> Inl e
      | Inr s1 \<Rightarrow> Inr (tap_default s1))"

text \<open>
  The constructor, run on a store, a window (or none) and the classes of the body. It
  subscribes to the pipeline without callbacks: an error of the pipeline is not caught
  but reported as unhandled, and the service is left as it was before the pipeline ran.
\<close>

definition constructor :: "(string \<rightharpoonup> string) \<Rightarrow> bool option \<Rightarrow> string list \<Rightarrow> state" where
  "constructor store view classes =
     (let s0 = \<lparr>localStorage = store, defaultView = view, body_classList = classes,
                renderer_calls = [], settings = JUndefined, subscriptions = 0, unhandled = []\<rparr>
      in case getDefaultSettings SETTINGS_KEY s0 of
           Inl e \<Rightarrow> s0\<lparr>unhandled := [e]\<rparr>
         | Inr s \<Rightarrow> s)"

definition setSystemMode :: "state \<Rightarrow> state" where
  "setSystemMode s =
     (let darkMode = isSystemDark s;
          s1 = setMode darkMode s;
          s2 = startSystemModeSynchronization s1
      in removeItem SETTINGS_KEY s2)"

definition setUserDefinedMode :: "bool \<Rightarrow> state \<Rightarrow> state" where
  "setUserDefinedMode darkMode s =
     (let s1 = setMode (JBool darkMode) s;
          s2 = s1\<lparr>settings := JObject [(darkMode_key, JBool darkMode)]\<rparr>
      in setItem SETTINGS_KEY darkMode s2)"

definition setLightMode :: "state \<Rightarrow> state" where
  "setLightMode s = setUserDefinedMode False s"

definition setDarkMode :: "state \<Rightarrow> state" where
  "setDarkMode s = setUserDefinedMode True s"

section \<open>Facts about the parser and the operations\<close>

lemma parse_settings_record:
  "JSON_parse (JSON_stringify_ThemeSettings b) = Inr (JObject [(darkMode_key, JBool b)])"
  by (cases b)
     (simp_all add: JSON_parse_def JSON_stringify_ThemeSettings_def start_char_def is_ws_def
        open_value_def member_key_def close_object_def separator_def code_units_def darkMode_key_def)

lemma JSON_parse_empty: "JSON_parse [] = Inl SyntaxError"
  by (simp add: JSON_parse_def)

text \<open>The parser on sample texts, well-formed and not.\<close>

lemmas parser_defs = JSON_parse_def start_char_def is_ws_def digit_of_def hex_of_def escape_of_def
  is_exp_def number_value_def rounds_to_zero_def open_value_def member_key_def close_array_def close_object_def
  separator_def

lemma parse_literals:
  "JSON_parse ''null'' = Inr JNull"
  "JSON_parse '' true '' = Inr (JBool True)"
  "JSON_parse ''false'' = Inr (JBool False)"
  by (simp_all add: parser_defs)

lemma parse_numbers:
  "JSON_parse ''0'' = Inr (JNumber 0 0)"
  "JSON_parse ''-12.50e+3'' = Inr (JNumber (- 1250) 1)"
  "JSON_parse ''01'' = Inl SyntaxError"
  "JSON_parse ''1.'' = Inl SyntaxError"
  "JSON_parse ''-'' = Inl SyntaxError"
  by (simp_all add: parser_defs)

lemma parse_tiny_numbers:
  "JSON_parse ''0.0'' = Inr (JNumber 0 0)"
  "JSON_parse ''2.5'' = Inr (JNumber 25 (- 1))"
  "JSON_parse ''1e-400'' = Inr (JNumber 0 0)"
  "JSON_parse ''2e-324'' = Inr (JNumber 0 0)"
  "JSON_parse ''3e-324'' = Inr (JNumber 3 (- 324))"
  by (simp_all add: parser_defs)

lemma parse_strings:
  \<open>JSON_parse ''""'' = Inr (JString [])\<close>
  \<open>JSON_parse (''"a'' @ [CHR 0x5C] @ ''u0041'' @ [CHR 0x5C] @ ''n"'') = Inr (JString [97, 65, 10])\<close>
  \<open>JSON_parse ''"abc'' = Inl SyntaxError\<close>
  by (simp_all add: parser_defs)

lemma parse_nested:
  \<open>JSON_parse ''{"a":[1,{"b":null}],"a":[]}'' = Inr (JObject [(code_units ''a'', JArray [])])\<close>
  \<open>JSON_parse ''[[],[true, false]]'' = Inr (JArray [JArray [], JArray [JBool True, JBool False]])\<close>
  \<open>JSON_parse ''[1,]'' = Inl SyntaxError\<close>
  \<open>JSON_parse ''{"a":1,}'' = Inl SyntaxError\<close>
  \<open>JSON_parse ''{"a" 1}'' = Inl SyntaxError\<close>
  \<open>JSON_parse ''[1 2]'' = Inl SyntaxError\<close>
  \<open>JSON_parse ''{} {}'' = Inl SyntaxError\<close>
  \<open>JSON_parse '']'' = Inl SyntaxError\<close>
  by (simp_all add: parser_defs code_units_def)

lemma setMode_frame:
  "localStorage (setMode d s) = localStorage s"
  "defaultView (setMode d s) = defaultView s"
  "settings (setMode d s) = settings s"
  "subscriptions (setMode d s) = subscriptions s"
  "unhandled (setMode d s) = unhandled s"
  by (simp_all add: setMode_def addClass_def removeClass_def)

lemma setMode_calls:
  "renderer_calls (setMode d s) =
     renderer_calls s @ [if truthy d then RemoveClass LIGHT_MODE_CSS_CLASS_NAME
                         else AddClass LIGHT_MODE_CSS_CLASS_NAME]"
  by (simp add: setMode_def addClass_def removeClass_def)

lemma setMode_flag:
  "(LIGHT_MODE_CSS_CLASS_NAME \<in> set (body_classList (setMode d s))) = (\<not> truthy d)"
  by (simp add: setMode_def addClass_def removeClass_def)

lemma setMode_others:
  "filter (\<lambda>c. c \<noteq> LIGHT_MODE_CSS_CLASS_NAME) (body_classList (setMode d s)) =
   filter (\<lambda>c. c \<noteq> LIGHT_MODE_CSS_CLASS_NAME) (body_classList s)"
  by (auto simp add: setMode_def addClass_def removeClass_def removeAll_filter_not_eq
      intro: filter_cong)

lemma start_sync_fields:
  "localStorage (startSystemModeSynchronization s) = localStorage s"
  "defaultView (startSystemModeSynchronization s) = defaultView s"
  "settings (startSystemModeSynchronization s) = settings s"
  "body_classList (startSystemModeSynchronization s) = body_classList s"
  "renderer_calls (startSystemModeSynchronization s) = renderer_calls s"
  "unhandled (startSystemModeSynchronization s) = unhandled s"
  by (simp_all add: startSystemModeSynchronization_def split: option.splits)

lemma start_sync_window:
  "defaultView s = Some m \<Longrightarrow>
   subscriptions (startSystemModeSynchronization s) = Suc (subscriptions s)"
  by (simp add: startSystemModeSynchronization_def)

lemma removeItem_fields:
  "localStorage (removeItem k s) = (localStorage s)(k := None)"
  "defaultView (removeItem k s) = defaultView s"
  "settings (removeItem k s) = settings s"
  "body_classList (removeItem k s) = body_classList s"
  "renderer_calls (removeItem k s) = renderer_calls s"
  "subscriptions (removeItem k s) = subscriptions s"
  "unhandled (removeItem k s) = unhandled s"
  by (simp_all add: removeItem_def)

lemma setItem_fields:
  "localStorage (setItem k b s) = (localStorage s)(k \<mapsto> JSON_stringify_ThemeSettings b)"
  "defaultView (setItem k b s) = defaultView s"
  "settings (setItem k b s) = settings s"
  "body_classList (setItem k b s) = body_classList s"
  "renderer_calls (setItem k b s) = renderer_calls s"
  "subscriptions (setItem k b s) = subscriptions s"
  "unhandled (setItem k b s) = unhandled s"
  by (simp_all add: setItem_def)

lemma setSystemMode_fields:
  "settings (setSystemMode s) = settings s"
  "defaultView (setSystemMode s) = defaultView s"
  "localStorage (setSystemMode s) = (localStorage s)(SETTINGS_KEY := None)"
  "renderer_calls (setSystemMode s) = renderer_calls (setMode (isSystemDark s) s)"
  "body_classList (setSystemMode s) = body_classList (setMode (isSystemDark s) s)"
  by (simp_all add: setSystemMode_def Let_def removeItem_fields start_sync_fields setMode_frame)

lemma setUserDefinedMode_fields:
  "settings (setUserDefinedMode b s) = JObject [(darkMode_key, JBool b)]"
  "localStorage (setUserDefinedMode b s) =
     (localStorage s)(SETTINGS_KEY \<mapsto> JSON_stringify_ThemeSettings b)"
  by (simp_all add: setUserDefinedMode_def Let_def setItem_fields setMode_frame)

lemma apply_theme_calls:
  "renderer_calls (apply_theme s) =
     renderer_calls s @
       [if truthy (get_prop (settings s) darkMode_key) then RemoveClass LIGHT_MODE_CSS_CLASS_NAME
        else AddClass LIGHT_MODE_CSS_CLASS_NAME]"
  by (simp add: apply_theme_def setMode_calls)

lemma apply_theme_flag:
  "(LIGHT_MODE_CSS_CLASS_NAME \<in> set (body_classList (apply_theme s))) =
   (\<not> truthy (get_prop (settings s) darkMode_key))"
  by (simp add: apply_theme_def setMode_flag)

text \<open>
  The ways the constructor can go, by what the store holds under the key: nothing or the
  empty text, a text that parses to a falsy value, a text that parses to a truthy value,
  and a text that does not parse.
\<close>

lemma constructor_absent:
  "store SETTINGS_KEY = None \<Longrightarrow>
   constructor store view classes =
     \<lparr>localStorage = store, defaultView = view, body_classList = classes, renderer_calls = [],
      settings = JObject [(darkMode_key, case view of None \<Rightarrow> JUndefined | Some m \<Rightarrow> JBool m)],
      subscriptions = (case view of None \<Rightarrow> 0 | Some m \<Rightarrow> 1), unhandled = []\<rparr>"
  by (simp add: constructor_def getDefaultSettings_def getItem_def tap_deserialize_def
      tap_default_def new_ThemeSettings_def set_darkMode_def isSystemDark_def
      startSystemModeSynchronization_def split: option.splits)

lemma constructor_empty_text:
  "store SETTINGS_KEY = Some [] \<Longrightarrow>
   constructor store view classes =
     \<lparr>localStorage = store, defaultView = view, body_classList = classes, renderer_calls = [],
      settings = JObject [(darkMode_key, case view of None \<Rightarrow> JUndefined | Some m \<Rightarrow> JBool m)],
      subscriptions = (case view of None \<Rightarrow> 0 | Some m \<Rightarrow> 1), unhandled = []\<rparr>"
  by (simp add: constructor_def getDefaultSettings_def getItem_def tap_deserialize_def
      tap_default_def new_ThemeSettings_def set_darkMode_def isSystemDark_def
      startSystemModeSynchronization_def split: option.splits)

lemma constructor_falsy:
  assumes "store SETTINGS_KEY = Some txt" and "JSON_parse txt = Inr v" and "\<not> truthy v"
  shows "constructor store view classes =
     \<lparr>localStorage = store, defaultView = view, body_classList = classes, renderer_calls = [],
      settings = JObject [(darkMode_key, case view of None \<Rightarrow> JUndefined | Some m \<Rightarrow> JBool m)],
      subscriptions = (case view of None \<Rightarrow> 0 | Some m \<Rightarrow> 1), unhandled = []\<rparr>"
proof -
  from assms(2) have "txt \<noteq> []"
    by (auto simp add: JSON_parse_def)
  with assms show ?thesis
    by (simp add: constructor_def getDefaultSettings_def getItem_def tap_deserialize_def
      tap_default_def new_ThemeSettings_def set_darkMode_def isSystemDark_def
      startSystemModeSynchronization_def split: option.splits)
qed

lemma constructor_present:
  assumes "store SETTINGS_KEY = Some txt" and "JSON_parse txt = Inr v" and "truthy v"
  shows "constructor store view classes =
     \<lparr>localStorage = store, defaultView = view, body_classList = classes, renderer_calls = [],
      settings = v, subscriptions = 0, unhandled = []\<rparr>"
proof -
  from assms(2) have "txt \<noteq> []"
    using JSON_parse_empty by auto
  with assms show ?thesis
    by (simp add: constructor_def getDefaultSettings_def getItem_def tap_deserialize_def
        tap_default_def)
qed

lemma constructor_malformed:
  assumes "store SETTINGS_KEY = Some txt" and "txt \<noteq> []" and "JSON_parse txt = Inl e"
  shows "constructor store view classes =
     \<lparr>localStorage = store, defaultView = view, body_classList = classes, renderer_calls = [],
      settings = JUndefined, subscriptions = 0, unhandled = [e]\<rparr>"
  using assms
  by (simp add: constructor_def getDefaultSettings_def getItem_def tap_deserialize_def)

text \<open>A live subscription does apply the mode of a change event.\<close>

lemma preference_change_live:
  "defaultView s = Some old \<Longrightarrow> subscriptions s = 1 \<Longrightarrow>
   renderer_calls (preference_change m s) =
     renderer_calls s @
       [if m then RemoveClass LIGHT_MODE_CSS_CLASS_NAME else AddClass LIGHT_MODE_CSS_CLASS_NAME]"
  by (simp add: preference_change_def on_change_def setMode_calls)

lemma preference_change_idle:
  "subscriptions s = 0 \<Longrightarrow>
   renderer_calls (preference_change m s) = renderer_calls s
   \<and> body_classList (preference_change m s) = body_classList s
   \<and> subscriptions (preference_change m s) = 0"
  by (simp add: preference_change_def split: option.splits)

lemma preference_changes_idle:
  "subscriptions s = 0 \<Longrightarrow>
   renderer_calls (fold preference_change ms s) = renderer_calls s
   \<and> body_classList (fold preference_change ms s) = body_classList s
   \<and> subscriptions (fold preference_change ms s) = 0"
proof (induction ms arbitrary: s)
  case Nil
  then show ?case by simp
next
  case (Cons m ms)
  from Cons.prems have step: "renderer_calls (preference_change m s) = renderer_calls s"
    "body_classList (preference_change m s) = body_classList s"
    "subscriptions (preference_change m s) = 0"
    using preference_change_idle [of s m] by simp_all
  from Cons.IH [OF step(3)] step show ?case by simp
qed

section \<open>The constructor\<close>

text \<open>
  Claim C1, as stated: a run of the initialisation with no persisted record applies the
  mode derived from the operating system to the renderer. It does not: with a dark
  preference and a body that carries the light-mode class, the constructor makes no call to
  the renderer and the class stays.
\<close>

theorem constructor_without_record_counterexample:
  "renderer_calls (constructor Map.empty (Some True) [''theme-alternate'']) = []
   \<and> LIGHT_MODE_CSS_CLASS_NAME \<in>
       set (body_classList (constructor Map.empty (Some True) [''theme-alternate'']))"
  by (simp add: constructor_absent LIGHT_MODE_CSS_CLASS_NAME_def)

text \<open>
  Claim C1, amended: when no record is stored under the settings key and the window
  reports the preference \<open>m\<close>, the constructor sets the settings to \<open>{darkMode: m}\<close> and
  starts one subscription to preference changes; it makes no call to the renderer and
  leaves the body as it was. The next \<open>apply()\<close> applies the derived mode: one call,
  \<open>removeClass\<close> for dark and \<open>addClass\<close> for light, after which the body carries the
  light-mode class exactly when \<open>m\<close> is light.
\<close>

theorem constructor_without_record:
  "store SETTINGS_KEY = None \<Longrightarrow>
   settings (constructor store (Some m) classes) = JObject [(code_units ''darkMode'', JBool m)]
   \<and> subscriptions (constructor store (Some m) classes) = 1
   \<and> renderer_calls (constructor store (Some m) classes) = []
   \<and> body_classList (constructor store (Some m) classes) = classes
   \<and> renderer_calls (apply_theme (constructor store (Some m) classes)) =
       [if m then RemoveClass LIGHT_MODE_CSS_CLASS_NAME else AddClass LIGHT_MODE_CSS_CLASS_NAME]
   \<and> (LIGHT_MODE_CSS_CLASS_NAME \<in>
        set (body_classList (apply_theme (constructor store (Some m) classes)))) = (\<not> m)"
  by (simp add: constructor_absent apply_theme_calls apply_theme_flag darkMode_key_def)

text \<open>The amended C1 on an empty store, a dark preference and a body in light mode.\<close>

theorem constructor_without_record_witness:
  "Map.empty SETTINGS_KEY = None
   \<and> subscriptions (constructor Map.empty (Some True) [''theme-alternate'']) = 1
   \<and> renderer_calls (apply_theme (constructor Map.empty (Some True) [''theme-alternate''])) =
       [RemoveClass ''theme-alternate'']
   \<and> ''theme-alternate'' \<notin>
       set (body_classList (apply_theme (constructor Map.empty (Some True) [''theme-alternate''])))"
  using constructor_without_record [of Map.empty True "[''theme-alternate'']"]
  by (simp add: LIGHT_MODE_CSS_CLASS_NAME_def)

text \<open>
  Claim C2, as stated: a run of the initialisation with the persisted record
  \<open>{darkMode: false}\<close> applies light mode to the renderer. It does not: the constructor
  makes no call to the renderer, and the body is left without the light-mode class.
\<close>

theorem constructor_with_record_counterexample:
  \<open>renderer_calls (constructor [SETTINGS_KEY \<mapsto> ''{"darkMode":false}''] (Some True) []) = []
   \<and> LIGHT_MODE_CSS_CLASS_NAME \<notin>
       set (body_classList (constructor [SETTINGS_KEY \<mapsto> ''{"darkMode":false}''] (Some True) []))\<close>
proof -
  have \<open>JSON_parse ''{"darkMode":false}'' = Inr (JObject [(darkMode_key, JBool False)])\<close>
    using parse_settings_record [of False] by (simp add: JSON_stringify_ThemeSettings_def)
  then show ?thesis
    by (simp add: constructor_present)
qed

text \<open>
  Claim C2, amended: when the text stored under the settings key deserializes to the
  record \<open>{darkMode: b}\<close>, the constructor sets the settings to that record and starts no
  subscription to preference changes; it makes no call to the renderer and leaves the body
  as it was. The next \<open>apply()\<close> applies the record's mode: one call, \<open>removeClass\<close> for
  dark and \<open>addClass\<close> for light, after which the body carries the light-mode class exactly
  when \<open>b\<close> is light.
\<close>

theorem constructor_with_record:
  assumes "store SETTINGS_KEY = Some txt"
    and "JSON_parse txt = Inr (JObject [(code_units ''darkMode'', JBool b)])"
  shows "settings (constructor store view classes) = JObject [(code_units ''darkMode'', JBool b)]
   \<and> subscriptions (constructor store view classes) = 0
   \<and> renderer_calls (constructor store view classes) = []
   \<and> body_classList (constructor store view classes) = classes
   \<and> renderer_calls (apply_theme (constructor store view classes)) =
       [if b then RemoveClass LIGHT_MODE_CSS_CLASS_NAME else AddClass LIGHT_MODE_CSS_CLASS_NAME]
   \<and> (LIGHT_MODE_CSS_CLASS_NAME \<in>
        set (body_classList (apply_theme (constructor store view classes)))) = (\<not> b)"
  using assms
  by (simp add: constructor_present apply_theme_calls apply_theme_flag darkMode_key_def)

text \<open>The amended C2 on the stored record \<open>{"darkMode":false}\<close> and a dark preference.\<close>

theorem constructor_with_record_witness:
  \<open>[SETTINGS_KEY \<mapsto> ''{"darkMode":false}''] SETTINGS_KEY = Some ''{"darkMode":false}''
   \<and> JSON_parse ''{"darkMode":false}'' = Inr (JObject [(code_units ''darkMode'', JBool False)])
   \<and> subscriptions (constructor [SETTINGS_KEY \<mapsto> ''{"darkMode":false}''] (Some True) []) = 0
   \<and> renderer_calls (apply_theme (constructor [SETTINGS_KEY \<mapsto> ''{"darkMode":false}''] (Some True) [])) =
       [AddClass ''theme-alternate'']
   \<and> body_classList (apply_theme (constructor [SETTINGS_KEY \<mapsto> ''{"darkMode":false}''] (Some True) [])) =
       [''theme-alternate'']\<close>
proof -
  have stored: \<open>[SETTINGS_KEY \<mapsto> ''{"darkMode":false}''] SETTINGS_KEY = Some ''{"darkMode":false}''\<close>
    by simp
  have parsed: \<open>JSON_parse ''{"darkMode":false}'' = Inr (JObject [(code_units ''darkMode'', JBool False)])\<close>
    using parse_settings_record [of False]
    by (simp add: JSON_stringify_ThemeSettings_def darkMode_key_def)
  from constructor_with_record
      [of \<open>[SETTINGS_KEY \<mapsto> ''{"darkMode":false}'']\<close> \<open>''{"darkMode":false}''\<close> False "Some True" "[]"]
    stored parsed
  show ?thesis
    by (simp add: LIGHT_MODE_CSS_CLASS_NAME_def apply_theme_def setMode_def addClass_def)
qed

section \<open>Following the system\<close>

text \<open>
  Claim C3, as stated: every call of \<open>setSystemMode()\<close> starts the subscription to
  preference changes. It does not where the document has no window: the guard of
  \<open>startSystemModeSynchronization\<close> subscribes to nothing, and no subscription is live
  after the call.
\<close>

theorem setSystemMode_without_window_counterexample:
  "defaultView (constructor Map.empty None []) = None
   \<and> subscriptions (setSystemMode (constructor Map.empty None [])) = 0"
  by (simp add: setSystemMode_def Let_def removeItem_fields setMode_frame constructor_absent
      startSystemModeSynchronization_def)

text \<open>
  Claim C3, amended: in a document whose window reports the preference \<open>m\<close>,
  \<open>setSystemMode()\<close> applies \<open>m\<close> to the renderer (one call, after which the body carries
  the light-mode class exactly when \<open>m\<close> is light), starts one more subscription to
  preference changes, the earlier ones staying live, and removes the record stored under
  the settings key; a constructor run on the store it leaves gives what it gives on a
  store with no record.
\<close>

theorem setSystemMode_follows_system:
  assumes "defaultView s = Some m"
  shows "renderer_calls (setSystemMode s) =
       renderer_calls s @
         [if m then RemoveClass LIGHT_MODE_CSS_CLASS_NAME else AddClass LIGHT_MODE_CSS_CLASS_NAME]
   \<and> (LIGHT_MODE_CSS_CLASS_NAME \<in> set (body_classList (setSystemMode s))) = (\<not> m)
   \<and> subscriptions (setSystemMode s) = Suc (subscriptions s)
   \<and> getItem SETTINGS_KEY (setSystemMode s) = None
   \<and> constructor (localStorage (setSystemMode s)) view classes =
       (constructor Map.empty view classes)\<lparr>localStorage := localStorage (setSystemMode s)\<rparr>"
proof -
  have dark: "isSystemDark s = JBool m"
    using assms by (simp add: isSystemDark_def)
  have calls: "renderer_calls (setSystemMode s) =
       renderer_calls s @
         [if m then RemoveClass LIGHT_MODE_CSS_CLASS_NAME else AddClass LIGHT_MODE_CSS_CLASS_NAME]"
    by (simp add: setSystemMode_fields dark setMode_calls)
  have flag: "(LIGHT_MODE_CSS_CLASS_NAME \<in> set (body_classList (setSystemMode s))) = (\<not> m)"
    by (simp add: setSystemMode_fields dark setMode_flag)
  have subs: "subscriptions (setSystemMode s) = Suc (subscriptions s)"
    using assms
    by (simp add: setSystemMode_def Let_def removeItem_fields start_sync_window setMode_frame)
  have removed: "getItem SETTINGS_KEY (setSystemMode s) = None"
    by (simp add: getItem_def setSystemMode_fields)
  then have absent: "localStorage (setSystemMode s) SETTINGS_KEY = None"
    by (simp add: getItem_def)
  have again: "constructor (localStorage (setSystemMode s)) view classes =
       (constructor Map.empty view classes)\<lparr>localStorage := localStorage (setSystemMode s)\<rparr>"
    using absent constructor_absent [of "localStorage (setSystemMode s)" view classes]
      constructor_absent [of Map.empty view classes]
    by simp
  from calls flag subs removed again show ?thesis by simp
qed

text \<open>
  The amended C3 on a service that followed the system (light), then took the user's choice of dark
  mode: \<open>setSystemMode()\<close> adds the light-mode class, a second subscription is live, and
  the record is gone.
\<close>

theorem setSystemMode_follows_system_witness:
  "defaultView (setUserDefinedMode True (constructor Map.empty (Some False) [])) = Some False
   \<and> renderer_calls (setSystemMode (setUserDefinedMode True (constructor Map.empty (Some False) []))) =
       [RemoveClass ''theme-alternate'', AddClass ''theme-alternate'']
   \<and> subscriptions (setSystemMode (setUserDefinedMode True (constructor Map.empty (Some False) []))) = 2
   \<and> getItem SETTINGS_KEY
       (setSystemMode (setUserDefinedMode True (constructor Map.empty (Some False) []))) = None"
proof -
  let ?s = "setUserDefinedMode True (constructor Map.empty (Some False) [])"
  have view: "defaultView ?s = Some False"
    by (simp add: setUserDefinedMode_def Let_def setItem_fields setMode_frame constructor_absent)
  have calls: "renderer_calls ?s = [RemoveClass ''theme-alternate'']"
    by (simp add: setUserDefinedMode_def Let_def setItem_fields setMode_calls constructor_absent
        LIGHT_MODE_CSS_CLASS_NAME_def)
  have subs: "subscriptions ?s = 1"
    by (simp add: setUserDefinedMode_def Let_def setItem_fields setMode_frame constructor_absent)
  from setSystemMode_follows_system [of ?s False None "[]"] view calls subs
  show ?thesis
    by (simp add: LIGHT_MODE_CSS_CLASS_NAME_def)
qed

text \<open>
  Claim C4: \<open>setSystemMode()\<close> leaves the field \<open>settings\<close> as it was. So after
  \<open>setUserDefinedMode(b)\<close> and then \<open>setSystemMode()\<close>, \<open>apply()\<close> applies \<open>b\<close> again,
  whatever the operating system prefers: its one call to the renderer is the call for \<open>b\<close>,
  and the body carries the light-mode class exactly when \<open>b\<close> is light.
\<close>

theorem setSystemMode_keeps_settings:
  "settings (setSystemMode s) = settings s
   \<and> renderer_calls (apply_theme (setSystemMode (setUserDefinedMode b s))) =
       renderer_calls (setSystemMode (setUserDefinedMode b s)) @
         [if b then RemoveClass LIGHT_MODE_CSS_CLASS_NAME else AddClass LIGHT_MODE_CSS_CLASS_NAME]
   \<and> (LIGHT_MODE_CSS_CLASS_NAME \<in>
        set (body_classList (apply_theme (setSystemMode (setUserDefinedMode b s))))) = (\<not> b)"
  by (simp add: apply_theme_calls apply_theme_flag setSystemMode_fields setUserDefinedMode_fields)

section \<open>The user's choice\<close>

text \<open>
  Claim C5: after \<open>setUserDefinedMode(b)\<close> the store holds, under the settings key, the
  text \<open>{"darkMode":true}\<close> or \<open>{"darkMode":false}\<close> according to \<open>b\<close>, and reading that
  text back and deserializing it gives the record \<open>{darkMode: b}\<close>.
\<close>

theorem setUserDefinedMode_round_trip:
  \<open>getItem SETTINGS_KEY (setUserDefinedMode b s) =
     Some (if b then ''{"darkMode":true}'' else ''{"darkMode":false}'')
   \<and> map_option JSON_parse (getItem SETTINGS_KEY (setUserDefinedMode b s)) =
     Some (Inr (JObject [(code_units ''darkMode'', JBool b)]))\<close>
proof -
  have stored: "getItem SETTINGS_KEY (setUserDefinedMode b s) = Some (JSON_stringify_ThemeSettings b)"
    by (simp add: getItem_def setUserDefinedMode_fields)
  have literal: \<open>JSON_stringify_ThemeSettings b =
      (if b then ''{"darkMode":true}'' else ''{"darkMode":false}'')\<close>
    by (simp add: JSON_stringify_ThemeSettings_def)
  have "JSON_parse (JSON_stringify_ThemeSettings b) =
      Inr (JObject [(code_units ''darkMode'', JBool b)])"
    using parse_settings_record [of b] by (simp add: darkMode_key_def)
  with stored literal show ?thesis by simp
qed

section \<open>The preference of the operating system\<close>

text \<open>
  Claim C6: where the document has no window, so that the operating system reports no
  preference, \<open>isSystemDark()\<close> should return \<open>false\<close>. The code returns \<open>undefined\<close>
  there, here on a service constructed without a window.
\<close>

theorem isSystemDark_without_window:
  "isSystemDark (constructor Map.empty None []) = JUndefined
   \<and> isSystemDark (constructor Map.empty None []) \<noteq> JBool False"
  by (simp add: isSystemDark_def constructor_absent)

text \<open>
  Claim C7: once the destroy signal has fired, no subscription to preference changes is
  live, and whatever preference changes follow, the renderer receives no further call and
  the classes of the body stay as they were.
\<close>

theorem no_render_after_destroy:
  "subscriptions (destroy s) = 0
   \<and> renderer_calls (fold preference_change ms (destroy s)) = renderer_calls s
   \<and> body_classList (fold preference_change ms (destroy s)) = body_classList s
   \<and> subscriptions (fold preference_change ms (destroy s)) = 0"
proof -
  have idle: "subscriptions (destroy s) = 0"
    by (simp add: destroy_def)
  have "renderer_calls (destroy s) = renderer_calls s" "body_classList (destroy s) = body_classList s"
    by (simp_all add: destroy_def)
  with preference_changes_idle [OF idle, of ms] idle show ?thesis by simp
qed

section \<open>Malformed stored text\<close>

text \<open>
  Claim C8, as stated: whenever the stored text is not valid JSON, deserialization fails
  and no fallback settings are built. The empty text is not valid JSON, yet the
  constructor never parses it: it takes it for an absent record, reports no error, and
  builds the settings from the operating system's preference and starts the subscription.
\<close>

theorem malformed_record_counterexample:
  "JSON_parse [] = Inl SyntaxError
   \<and> unhandled (constructor [SETTINGS_KEY \<mapsto> []] (Some True) []) = []
   \<and> settings (constructor [SETTINGS_KEY \<mapsto> []] (Some True) []) =
       JObject [(code_units ''darkMode'', JBool True)]
   \<and> subscriptions (constructor [SETTINGS_KEY \<mapsto> []] (Some True) []) = 1"
  by (simp add: JSON_parse_empty constructor_empty_text darkMode_key_def)

text \<open>
  Claim C8, amended: when the text stored under the settings key is not empty and is not
  valid JSON, deserialization fails with an error that the service does not catch: it is
  the one error reported by the constructor's subscription. No fallback settings are
  built: the settings stay \<open>undefined\<close>, no subscription to preference changes is started,
  and the renderer is not called.
\<close>

theorem malformed_record_surfaces:
  assumes "store SETTINGS_KEY = Some txt" and "txt \<noteq> []" and "JSON_parse txt = Inl e"
  shows "unhandled (constructor store view classes) = [e]
   \<and> settings (constructor store view classes) = JUndefined
   \<and> subscriptions (constructor store view classes) = 0
   \<and> renderer_calls (constructor store view classes) = []"
  using assms constructor_malformed [of "store" "txt" "e" "view" "classes"] by simp

text \<open>The amended C8 on the stored text \<open>{darkMode\<close>.\<close>

theorem malformed_record_surfaces_witness:
  "[SETTINGS_KEY \<mapsto> ''{darkMode''] SETTINGS_KEY = Some ''{darkMode''
   \<and> ''{darkMode'' \<noteq> []
   \<and> JSON_parse ''{darkMode'' = Inl SyntaxError
   \<and> unhandled (constructor [SETTINGS_KEY \<mapsto> ''{darkMode''] (Some True) []) = [SyntaxError]
   \<and> settings (constructor [SETTINGS_KEY \<mapsto> ''{darkMode''] (Some True) []) = JUndefined
   \<and> subscriptions (constructor [SETTINGS_KEY \<mapsto> ''{darkMode''] (Some True) []) = 0"
proof -
  have stored: "[SETTINGS_KEY \<mapsto> ''{darkMode''] SETTINGS_KEY = Some ''{darkMode''"
    by simp
  have nonempty: "''{darkMode'' \<noteq> []"
    by simp
  have malformed: "JSON_parse ''{darkMode'' = Inl SyntaxError"
    by (simp add: JSON_parse_def start_char_def is_ws_def digit_of_def)
  from malformed_record_surfaces
      [of "[SETTINGS_KEY \<mapsto> ''{darkMode'']" "''{darkMode''" SyntaxError "Some True" "[]"]
    stored nonempty malformed
  show ?thesis by simp
qed

section \<open>Applying a mode\<close>

text \<open>
  Claim C9: applying a mode makes exactly one call to the renderer, \<open>removeClass\<close> of the
  light-mode class for dark and \<open>addClass\<close> of it for light. Afterwards the body carries
  that class exactly when the mode is light, its other classes are as before, and nothing
  but the body's classes and the log of calls has changed.
\<close>

theorem setMode_mapping:
  "renderer_calls (setMode (JBool b) s) =
     renderer_calls s @ [if b then RemoveClass LIGHT_MODE_CSS_CLASS_NAME
                         else AddClass LIGHT_MODE_CSS_CLASS_NAME]
   \<and> (LIGHT_MODE_CSS_CLASS_NAME \<in> set (body_classList (setMode (JBool b) s))) = (\<not> b)
   \<and> filter (\<lambda>c. c \<noteq> LIGHT_MODE_CSS_CLASS_NAME) (body_classList (setMode (JBool b) s)) =
     filter (\<lambda>c. c \<noteq> LIGHT_MODE_CSS_CLASS_NAME) (body_classList s)
   \<and> setMode (JBool b) s =
     s\<lparr>body_classList := body_classList (setMode (JBool b) s),
       renderer_calls := renderer_calls (setMode (JBool b) s)\<rparr>"
proof -
  have "setMode (JBool b) s =
     s\<lparr>body_classList := body_classList (setMode (JBool b) s),
       renderer_calls := renderer_calls (setMode (JBool b) s)\<rparr>"
    by (simp add: setMode_def addClass_def removeClass_def)
  then show ?thesis
    using setMode_calls [of "JBool b" s] setMode_flag [of "JBool b" s] setMode_others [of "JBool b" s]
    by simp
qed

text \<open>
  Claim C10: applying the same mode twice in a row leaves the classes of the body as
  applying it once does.
\<close>

theorem setMode_idempotent:
  "body_classList (setMode d (setMode d s)) = body_classList (setMode d s)"
  by (simp add: setMode_def addClass_def removeClass_def)

end
